theory Spec2Isabelle
  imports Complex_Main "HOL-Library.Word" "HOL-Library.Sublist"
begin

section \<open>The AMI wrapper of amipy: data model\<close>

text \<open>
  The wrapper \<^verbatim>\<open>AmiWrapper\<close> (file \<^verbatim>\<open>amipy/amiwrapper.py\<close>) marshals Python values into the
  functions of a dynamically loaded simulation kernel. Python integers are \<open>int\<close>, a
  \<^verbatim>\<open>c_int\<close> is a 32-bit word read as two's complement with \<open>sint\<close>, a \<^verbatim>\<open>c_double\<close> is carried as a
  \<open>real\<close> (no arithmetic is done on it), strings are \<open>string\<close>.
\<close>

type_synonym c_int = "32 word"
type_synonym c_double = real
type_synonym path = string
type_synonym address = nat

text \<open>The exceptions the module can raise. \<^verbatim>\<open>check_result\<close> raises the plain
  \<^verbatim>\<open>Exception\<close> with a message; the others come from \<^verbatim>\<open>raise NotImplementedError\<close>,
  \<^verbatim>\<open>assert False\<close>, \<^verbatim>\<open>np.zeros\<close> of a negative length and symbol lookup
  (\<^verbatim>\<open>ValueError\<close>), and \<^verbatim>\<open>cdll.LoadLibrary\<close> (\<^verbatim>\<open>OSError\<close>).\<close>

datatype exn = Exception string | NotImplementedError | AssertionError | ValueError | OSError

definition BMI_SUCCESS :: int where
  "BMI_SUCCESS = 0"

definition BMI_FAILURE :: int where
  "BMI_FAILURE = 1"

definition check_result :: "int \<Rightarrow> string \<Rightarrow> string \<Rightarrow> exn + unit" where
  "check_result result function_name detail =
     (if result \<noteq> BMI_SUCCESS
      then Inl (Exception (''MODFLOW 6 BMI, exception in: '' @ function_name @
                           '' ('' @ detail @ '')''))
      else Inr ())"

subsection \<open>The process: current directory and kernel state\<close>

text \<open>
  One kernel call as the process sees it: the name of the kernel function, the current
  working directory of the process while the function ran, and the status it returned.
\<close>

record kcall =
  kc_name :: string
  kc_cwd :: path
  kc_status :: int

text \<open>
  The process state: the current working directory (an absolute path, as \<^verbatim>\<open>os.getcwd\<close>
  returns it), the state of the loaded kernel, and the kernel calls made so far.
\<close>

record 'k process =
  cwd :: path
  kstate :: "'k"
  observed :: "kcall list"

text \<open>
  \<^verbatim>\<open>os.getcwd\<close> and \<^verbatim>\<open>os.chdir\<close>. Every directory is taken to exist, and paths are
  compared as written: \<^verbatim>\<open>"."\<close> is the current directory, a path starting with a slash
  replaces it, and any other path is appended to it.
\<close>

definition is_absolute :: "path \<Rightarrow> bool" where
  "is_absolute d = (case d of [] \<Rightarrow> False | c # _ \<Rightarrow> c = CHR ''/'')"

definition resolve :: "path \<Rightarrow> path \<Rightarrow> path" where
  "resolve cur d = (if d = ''.'' then cur else if is_absolute d then d else cur @ ''/'' @ d)"

definition os_getcwd :: "'k process \<Rightarrow> path" where
  "os_getcwd p = cwd p"

definition os_chdir :: "path \<Rightarrow> 'k process \<Rightarrow> 'k process" where
  "os_chdir d p = p\<lparr>cwd := resolve (cwd p) d\<rparr>"

subsection \<open>The kernel's function table\<close>

text \<open>
  A kernel function runs in the process: it sees the current working directory and the
  kernel state, and returns its status code, the content of its output slot or buffer
  when it returns, and the new kernel state. The kernel does not change the working
  directory itself. A string output is the decoded text of the string buffer; that the
  buffer holds \<^verbatim>\<open>MAXSTRLEN\<close> bytes is not represented.
\<close>

type_synonym ('k, 'r) kfun = "path \<Rightarrow> 'k \<Rightarrow> (c_int \<times> 'r) \<times> 'k"

record 'k kernel =
  k_constants :: "string \<Rightarrow> c_int option"
  k_initialize :: "string \<Rightarrow> ('k, unit) kfun"
  k_update :: "('k, unit) kfun"
  k_finalize :: "('k, unit) kfun"
  k_get_current_time :: "('k, c_double) kfun"
  k_get_start_time :: "('k, c_double) kfun"
  k_get_end_time :: "('k, c_double) kfun"
  k_get_time_step :: "('k, c_double) kfun"
  k_get_var_type :: "string \<Rightarrow> ('k, string) kfun"
  k_get_var_shape :: "string \<Rightarrow> ('k, c_int list) kfun"
  k_get_var_rank :: "string \<Rightarrow> ('k, c_int) kfun"
  k_get_var_itemsize :: "string \<Rightarrow> ('k, c_int) kfun"
  k_get_var_nbytes :: "string \<Rightarrow> ('k, c_int) kfun"
  k_get_value_ptr_double :: "string \<Rightarrow> ('k, address) kfun"
  k_get_value_ptr_int :: "string \<Rightarrow> ('k, address) kfun"
  k_get_grid_rank :: "c_int \<Rightarrow> ('k, c_int) kfun"
  k_get_grid_type :: "c_int \<Rightarrow> ('k, string) kfun"
  k_get_grid_shape :: "c_int \<Rightarrow> ('k, c_int list) kfun"
  k_get_grid_x :: "c_int \<Rightarrow> ('k, c_double list) kfun"
  k_get_grid_y :: "c_int \<Rightarrow> ('k, c_double list) kfun"
  k_get_grid_z :: "c_int \<Rightarrow> ('k, c_double list) kfun"
  k_prepare_time_step :: "c_double \<Rightarrow> ('k, unit) kfun"
  k_do_time_step :: "('k, unit) kfun"
  k_finalize_time_step :: "('k, unit) kfun"
  k_get_subcomponent_count :: "('k, c_int) kfun"
  k_prepare_solve :: "c_int \<Rightarrow> ('k, unit) kfun"
  k_solve :: "c_int \<Rightarrow> ('k, c_int) kfun"
  k_finalize_solve :: "c_int \<Rightarrow> ('k, unit) kfun"

text \<open>
  A foreign call \<^verbatim>\<open>self.dll.f(...)\<close>: the kernel function runs in the current directory
  of the process; the call returns the status as a Python integer and the output.
\<close>

definition ccall :: "string \<Rightarrow> ('k, 'r) kfun \<Rightarrow> 'k process \<Rightarrow> (int \<times> 'r) \<times> 'k process" where
  "ccall fname f p =
     (case f (cwd p) (kstate p) of
        ((status, out), k') \<Rightarrow>
          ((sint status, out),
           p\<lparr>kstate := k',
             observed := observed p @
               [\<lparr>kc_name = fname, kc_cwd = cwd p, kc_status = sint status\<rparr>]\<rparr>))"

text \<open>
  A buffer the caller allocates and the kernel fills from its start: the entries the
  kernel writes replace the first entries of the array; the array keeps its length. The
  kernel receives the address of the buffer and not its length: entries written past the
  end are an out-of-bounds write in the program, whose consequences are not represented
  (the array read back holds the entries that fit).
\<close>

definition fill :: "'e list \<Rightarrow> 'e list \<Rightarrow> 'e list" where
  "fill array written = take (length array) written @ drop (length written) array"

subsection \<open>The wrapper object\<close>

text \<open>
  The attributes of \<^verbatim>\<open>self\<close>; the attribute \<^verbatim>\<open>path\<close> is the field \<open>lib_path\<close>.
\<close>

record 'k adapter =
  lib_path :: string
  dll :: "'k kernel"
  MAXSTRLEN :: int
  working_directory :: path
  previous_directory :: path

definition get_constant_int :: "'k kernel \<Rightarrow> string \<Rightarrow> exn + int" where
  "get_constant_int d name =
     (case k_constants d name of None \<Rightarrow> Inl ValueError | Some c_var \<Rightarrow> Inr (sint c_var))"

text \<open>
  The constructor \<^verbatim>\<open>__init__(self, path)\<close>. \<open>LoadLibrary\<close> stands for
  \<^verbatim>\<open>cdll.LoadLibrary\<close>: the libraries the loader can find.
\<close>

definition init :: "(string \<Rightarrow> 'k kernel option) \<Rightarrow> string \<Rightarrow> exn + 'k adapter" where
  "init LoadLibrary path =
     (case LoadLibrary path of
        None \<Rightarrow> Inl OSError
      | Some d \<Rightarrow>
          (case get_constant_int d ''MAXSTRLEN'' of
             Inl e \<Rightarrow> Inl e
           | Inr n \<Rightarrow>
               Inr \<lparr>lib_path = path, dll = d, MAXSTRLEN = n,
                    working_directory = ''.'', previous_directory = ''.''\<rparr>))"

section \<open>Lifecycle and stepping methods\<close>

text \<open>
  These methods store the caller's directory in \<^verbatim>\<open>self.previous_directory\<close>, change to
  \<^verbatim>\<open>self.working_directory\<close>, call the kernel, check the status and change back. A
  method returns its result (or the exception raised), the wrapper and the process.
\<close>

type_synonym ('k, 'a) scoped = "(exn + 'a) \<times> 'k adapter \<times> 'k process"

definition initialize :: "'k adapter \<Rightarrow> string \<Rightarrow> 'k process \<Rightarrow> ('k, unit) scoped" where
  "initialize self config_file p =
     (let self1 = self\<lparr>previous_directory := os_getcwd p\<rparr>;
          p1 = os_chdir (working_directory self1) p
      in case ccall ''initialize'' (k_initialize (dll self1) config_file) p1 of
           ((status, _), p2) \<Rightarrow>
             (case check_result status ''initialize'' [] of
                Inl e \<Rightarrow> (Inl e, self1, p2)
              | Inr _ \<Rightarrow> (Inr (), self1, os_chdir (previous_directory self1) p2)))"

definition update :: "'k adapter \<Rightarrow> 'k process \<Rightarrow> ('k, unit) scoped" where
  "update self p =
     (let self1 = self\<lparr>previous_directory := os_getcwd p\<rparr>;
          p1 = os_chdir (working_directory self1) p
      in case ccall ''update'' (k_update (dll self1)) p1 of
           ((status, _), p2) \<Rightarrow>
             (case check_result status ''update'' [] of
                Inl e \<Rightarrow> (Inl e, self1, p2)
              | Inr _ \<Rightarrow> (Inr (), self1, os_chdir (previous_directory self1) p2)))"

definition update_until :: "'k adapter \<Rightarrow> c_double \<Rightarrow> 'k process \<Rightarrow> ('k, unit) scoped" where
  "update_until self time p =
     (let self1 = self\<lparr>previous_directory := os_getcwd p\<rparr>;
          p1 = os_chdir (working_directory self1) p
      in case check_result BMI_FAILURE ''update_until'' [] of
           Inl e \<Rightarrow> (Inl e, self1, p1)
         | Inr _ \<Rightarrow> (Inr (), self1, os_chdir (previous_directory self1) p1))"

definition finalize :: "'k adapter \<Rightarrow> 'k process \<Rightarrow> ('k, unit) scoped" where
  "finalize self p =
     (let self1 = self\<lparr>previous_directory := os_getcwd p\<rparr>;
          p1 = os_chdir (working_directory self1) p
      in case ccall ''finalize'' (k_finalize (dll self1)) p1 of
           ((status, _), p2) \<Rightarrow>
             (case check_result status ''finalize'' [] of
                Inl e \<Rightarrow> (Inl e, self1, p2)
              | Inr _ \<Rightarrow> (Inr (), self1, os_chdir (previous_directory self1) p2)))"

section \<open>Queries\<close>

text \<open>
  The remaining kernel-calling methods neither read nor write the two directory fields
  and never call \<^verbatim>\<open>os.chdir\<close>: they return their result (or the exception) and the
  process.
\<close>

type_synonym ('k, 'a) query = "(exn + 'a) \<times> 'k process"

definition get_current_time :: "'k adapter \<Rightarrow> 'k process \<Rightarrow> ('k, c_double) query" where
  "get_current_time self p =
     (case ccall ''get_current_time'' (k_get_current_time (dll self)) p of
        ((status, out), p1) \<Rightarrow>
          (case check_result status ''get_current_time'' [] of
             Inl e \<Rightarrow> (Inl e, p1)
           | Inr _ \<Rightarrow> (Inr out, p1)))"

definition get_start_time :: "'k adapter \<Rightarrow> 'k process \<Rightarrow> ('k, c_double) query" where
  "get_start_time self p =
     (case ccall ''get_start_time'' (k_get_start_time (dll self)) p of
        ((status, out), p1) \<Rightarrow>
          (case check_result status ''get_start_time'' [] of
             Inl e \<Rightarrow> (Inl e, p1)
           | Inr _ \<Rightarrow> (Inr out, p1)))"

definition get_end_time :: "'k adapter \<Rightarrow> 'k process \<Rightarrow> ('k, c_double) query" where
  "get_end_time self p =
     (case ccall ''get_end_time'' (k_get_end_time (dll self)) p of
        ((status, out), p1) \<Rightarrow>
          (case check_result status ''get_end_time'' [] of
             Inl e \<Rightarrow> (Inl e, p1)
           | Inr _ \<Rightarrow> (Inr out, p1)))"

definition get_time_step :: "'k adapter \<Rightarrow> 'k process \<Rightarrow> ('k, c_double) query" where
  "get_time_step self p =
     (case ccall ''get_time_step'' (k_get_time_step (dll self)) p of
        ((status, out), p1) \<Rightarrow>
          (case check_result status ''get_time_step'' [] of
             Inl e \<Rightarrow> (Inl e, p1)
           | Inr _ \<Rightarrow> (Inr out, p1)))"

subsection \<open>Variable metadata\<close>

definition get_var_type :: "'k adapter \<Rightarrow> string \<Rightarrow> 'k process \<Rightarrow> ('k, string) query" where
  "get_var_type self name p =
     (case ccall ''get_var_type'' (k_get_var_type (dll self) name) p of
        ((status, var_type), p1) \<Rightarrow>
          (case check_result status ''get_var_type'' (''for variable '' @ name) of
             Inl e \<Rightarrow> (Inl e, p1)
           | Inr _ \<Rightarrow> (Inr var_type, p1)))"

definition get_var_rank :: "'k adapter \<Rightarrow> string \<Rightarrow> 'k process \<Rightarrow> ('k, int) query" where
  "get_var_rank self name p =
     (case ccall ''get_var_rank'' (k_get_var_rank (dll self) name) p of
        ((status, out), p1) \<Rightarrow>
          (case check_result status ''get_var_rank'' (''for variable '' @ name) of
             Inl e \<Rightarrow> (Inl e, p1)
           | Inr _ \<Rightarrow> (Inr (sint out), p1)))"

text \<open>\<^verbatim>\<open>np.zeros(rank, dtype=np.int32)\<close>: a negative length raises \<^verbatim>\<open>ValueError\<close>.\<close>

definition np_zeros :: "int \<Rightarrow> exn + c_int list" where
  "np_zeros n = (if n < 0 then Inl ValueError else Inr (replicate (nat n) 0))"

definition get_var_shape :: "'k adapter \<Rightarrow> string \<Rightarrow> 'k process \<Rightarrow> ('k, c_int list) query" where
  "get_var_shape self name p =
     (case get_var_rank self name p of
        (Inl e, p1) \<Rightarrow> (Inl e, p1)
      | (Inr rank, p1) \<Rightarrow>
          (case np_zeros rank of
             Inl e \<Rightarrow> (Inl e, p1)
           | Inr array \<Rightarrow>
               (case ccall ''get_var_shape'' (k_get_var_shape (dll self) name) p1 of
                  ((status, written), p2) \<Rightarrow>
                    (case check_result status ''get_var_shape'' (''for variable '' @ name) of
                       Inl e \<Rightarrow> (Inl e, p2)
                     | Inr _ \<Rightarrow> (Inr (fill array written), p2)))))"

definition get_var_itemsize :: "'k adapter \<Rightarrow> string \<Rightarrow> 'k process \<Rightarrow> ('k, int) query" where
  "get_var_itemsize self name p =
     (case ccall ''get_var_itemsize'' (k_get_var_itemsize (dll self) name) p of
        ((status, out), p1) \<Rightarrow>
          (case check_result status ''get_var_itemsize'' (''for variable '' @ name) of
             Inl e \<Rightarrow> (Inl e, p1)
           | Inr _ \<Rightarrow> (Inr (sint out), p1)))"

definition get_var_nbytes :: "'k adapter \<Rightarrow> string \<Rightarrow> 'k process \<Rightarrow> ('k, int) query" where
  "get_var_nbytes self name p =
     (case ccall ''get_var_nbytes'' (k_get_var_nbytes (dll self) name) p of
        ((status, out), p1) \<Rightarrow>
          (case check_result status ''get_var_nbytes'' (''for variable '' @ name) of
             Inl e \<Rightarrow> (Inl e, p1)
           | Inr _ \<Rightarrow> (Inr (sint out), p1)))"

subsection \<open>Value pointers\<close>

text \<open>
  \<^verbatim>\<open>np.trim_zeros\<close> with its default \<^verbatim>\<open>trim='fb'\<close>: \<open>first\<close> counts the zeros at the
  front, \<open>last\<close> is the length less the zeros at the back, and the result is the slice
  \<^verbatim>\<open>filt[first:last]\<close> (empty when \<open>last \<le> first\<close>).
\<close>

definition trim_zeros :: "'a::zero list \<Rightarrow> 'a list" where
  "trim_zeros filt =
     (let first = length (takeWhile (\<lambda>i. i = 0) filt);
          last = length filt - length (takeWhile (\<lambda>i. i = 0) (rev filt))
      in drop first (take last filt))"

text \<open>\<^verbatim>\<open>str.lower\<close> on the ASCII letters, and \<^verbatim>\<open>str.startswith\<close>.\<close>

definition lower_char :: "char \<Rightarrow> char" where
  "lower_char c =
     (case map_of (zip ''ABCDEFGHIJKLMNOPQRSTUVWXYZ'' ''abcdefghijklmnopqrstuvwxyz'') c of
        None \<Rightarrow> c
      | Some l \<Rightarrow> l)"

definition lower :: "string \<Rightarrow> string" where
  "lower s = map lower_char s"

definition startswith :: "string \<Rightarrow> string \<Rightarrow> bool" where
  "startswith s pre = (take (length pre) s = pre)"

text \<open>
  The array type built by \<^verbatim>\<open>np.ctypeslib.ndpointer(dtype, ndim, shape, flags)\<close>, and the
  array \<^verbatim>\<open>values.contents\<close>: an array of that type over the memory at the address the
  kernel stored in \<^verbatim>\<open>values\<close>.
\<close>

datatype dtype = float64 | int32

record ndpointer =
  nd_dtype :: dtype
  nd_ndim :: nat
  nd_shape :: "c_int list"
  nd_flags :: string

record ndarray =
  arraytype :: ndpointer
  data :: address

text \<open>A Python function that ends without \<^verbatim>\<open>return\<close> returns \<^verbatim>\<open>None\<close>: the result
  of the two methods is an option, \<open>None\<close> for \<^verbatim>\<open>None\<close>. The statement
  \<^verbatim>\<open>assert False\<close> raises \<^verbatim>\<open>AssertionError\<close> (the interpreter runs with assertions on).\<close>

definition get_value_ptr_scalar ::
  "'k adapter \<Rightarrow> string \<Rightarrow> 'k process \<Rightarrow> ('k, ndarray option) query" where
  "get_value_ptr_scalar self name p =
     (case get_var_type self name p of
        (Inl e, p1) \<Rightarrow> (Inl e, p1)
      | (Inr vartype, p1) \<Rightarrow>
          if startswith (lower vartype) ''double'' then (Inl AssertionError, p1)
          else if startswith (lower vartype) ''int'' then
            (let arraytype = \<lparr>nd_dtype = int32, nd_ndim = 1, nd_shape = [1], nd_flags = ''F''\<rparr>
             in case ccall ''get_value_ptr_int'' (k_get_value_ptr_int (dll self) name) p1 of
                  ((status, values), p2) \<Rightarrow>
                    (case check_result status ''get_value_ptr'' (''for variable '' @ name) of
                       Inl e \<Rightarrow> (Inl e, p2)
                     | Inr _ \<Rightarrow> (Inr (Some \<lparr>arraytype = arraytype, data = values\<rparr>), p2)))
          else (Inr None, p1))"

definition get_value_ptr ::
  "'k adapter \<Rightarrow> string \<Rightarrow> 'k process \<Rightarrow> ('k, ndarray option) query" where
  "get_value_ptr self name p =
     (case get_var_rank self name p of
        (Inl e, p1) \<Rightarrow> (Inl e, p1)
      | (Inr rank, p1) \<Rightarrow>
          if rank = 0 then get_value_ptr_scalar self name p1
          else
            (case get_var_type self name p1 of
               (Inl e, p2) \<Rightarrow> (Inl e, p2)
             | (Inr vartype, p2) \<Rightarrow>
                 (case get_var_shape self name p2 of
                    (Inl e, p3) \<Rightarrow> (Inl e, p3)
                  | (Inr shape_array, p3) \<Rightarrow>
                      (let shape_tuple = trim_zeros shape_array;
                           ndim = length shape_tuple
                       in if startswith (lower vartype) ''double'' then
                            (let arraytype = \<lparr>nd_dtype = float64, nd_ndim = ndim,
                                              nd_shape = shape_tuple, nd_flags = ''F''\<rparr>
                             in case ccall ''get_value_ptr_double''
                                       (k_get_value_ptr_double (dll self) name) p3 of
                                  ((status, values), p4) \<Rightarrow>
                                    (case check_result status ''get_value_ptr''
                                            (''for variable '' @ name) of
                                       Inl e \<Rightarrow> (Inl e, p4)
                                     | Inr _ \<Rightarrow>
                                         (Inr (Some \<lparr>arraytype = arraytype, data = values\<rparr>), p4)))
                          else if startswith (lower vartype) ''int'' then
                            (let arraytype = \<lparr>nd_dtype = int32, nd_ndim = ndim,
                                              nd_shape = shape_tuple, nd_flags = ''F''\<rparr>
                             in case ccall ''get_value_ptr_int''
                                       (k_get_value_ptr_int (dll self) name) p3 of
                                  ((status, values), p4) \<Rightarrow>
                                    (case check_result status ''get_value_ptr''
                                            (''for variable '' @ name) of
                                       Inl e \<Rightarrow> (Inl e, p4)
                                     | Inr _ \<Rightarrow>
                                         (Inr (Some \<lparr>arraytype = arraytype, data = values\<rparr>), p4)))
                          else (Inr None, p3)))))"

subsection \<open>Grids\<close>

text \<open>\<^verbatim>\<open>str\<close> of a Python integer: decimal digits, with a minus sign when negative.\<close>

fun str_nat :: "nat \<Rightarrow> string" where
  "str_nat n =
     (if n < 10 then [''0123456789'' ! n]
      else str_nat (n div 10) @ [''0123456789'' ! (n mod 10)])"

definition str_int :: "int \<Rightarrow> string" where
  "str_int i = (if i < 0 then CHR ''-'' # str_nat (nat (- i)) else str_nat (nat i))"

text \<open>
  Four of the grid methods build their detail with \<^verbatim>\<open>str(id)\<close>: no local variable is
  called \<^verbatim>\<open>id\<close>, so this is \<^verbatim>\<open>str\<close> of Python's built-in function \<^verbatim>\<open>id\<close>.
\<close>

definition str_builtin_id :: string where
  "str_builtin_id = ''<built-in function id>''"

definition get_grid_rank :: "'k adapter \<Rightarrow> int \<Rightarrow> 'k process \<Rightarrow> ('k, int) query" where
  "get_grid_rank self grid p =
     (let c_grid = (word_of_int grid :: c_int)
      in case ccall ''get_grid_rank'' (k_get_grid_rank (dll self) c_grid) p of
           ((status, item_size), p1) \<Rightarrow>
             (case check_result status ''get_grid_rank'' (''for id '' @ str_int grid) of
                Inl e \<Rightarrow> (Inl e, p1)
              | Inr _ \<Rightarrow> (Inr (sint item_size), p1)))"

definition get_grid_type :: "'k adapter \<Rightarrow> int \<Rightarrow> 'k process \<Rightarrow> ('k, string) query" where
  "get_grid_type self grid p =
     (let c_grid = (word_of_int grid :: c_int)
      in case ccall ''get_grid_type'' (k_get_grid_type (dll self) c_grid) p of
           ((status, grid_type), p1) \<Rightarrow>
             (case check_result status ''get_grid_type'' (''for id '' @ str_int grid) of
                Inl e \<Rightarrow> (Inl e, p1)
              | Inr _ \<Rightarrow> (Inr grid_type, p1)))"

definition get_grid_shape :: "'k adapter \<Rightarrow> int \<Rightarrow> c_int list \<Rightarrow> 'k process \<Rightarrow> ('k, c_int list) query" where
  "get_grid_shape self grid array p =
     (let c_grid = (word_of_int grid :: c_int)
      in case ccall ''get_grid_shape'' (k_get_grid_shape (dll self) c_grid) p of
           ((status, written), p1) \<Rightarrow>
             (case check_result status ''get_grid_shape'' (''for id '' @ str_builtin_id) of
                Inl e \<Rightarrow> (Inl e, p1)
              | Inr _ \<Rightarrow> (Inr (fill array written), p1)))"

definition get_grid_x :: "'k adapter \<Rightarrow> int \<Rightarrow> c_double list \<Rightarrow> 'k process \<Rightarrow> ('k, c_double list) query" where
  "get_grid_x self grid array p =
     (let c_grid = (word_of_int grid :: c_int)
      in case ccall ''get_grid_x'' (k_get_grid_x (dll self) c_grid) p of
           ((status, written), p1) \<Rightarrow>
             (case check_result status ''get_grid_x'' (''for id '' @ str_builtin_id) of
                Inl e \<Rightarrow> (Inl e, p1)
              | Inr _ \<Rightarrow> (Inr (fill array written), p1)))"

definition get_grid_y :: "'k adapter \<Rightarrow> int \<Rightarrow> c_double list \<Rightarrow> 'k process \<Rightarrow> ('k, c_double list) query" where
  "get_grid_y self grid array p =
     (let c_grid = (word_of_int grid :: c_int)
      in case ccall ''get_grid_y'' (k_get_grid_y (dll self) c_grid) p of
           ((status, written), p1) \<Rightarrow>
             (case check_result status ''get_grid_y'' (''for id '' @ str_builtin_id) of
                Inl e \<Rightarrow> (Inl e, p1)
              | Inr _ \<Rightarrow> (Inr (fill array written), p1)))"

definition get_grid_z :: "'k adapter \<Rightarrow> int \<Rightarrow> c_double list \<Rightarrow> 'k process \<Rightarrow> ('k, c_double list) query" where
  "get_grid_z self grid array p =
     (let c_grid = (word_of_int grid :: c_int)
      in case ccall ''get_grid_z'' (k_get_grid_z (dll self) c_grid) p of
           ((status, written), p1) \<Rightarrow>
             (case check_result status ''get_grid_z'' (''for id '' @ str_builtin_id) of
                Inl e \<Rightarrow> (Inl e, p1)
              | Inr _ \<Rightarrow> (Inr (fill array written), p1)))"

section \<open>The AMI extension\<close>

definition prepare_time_step :: "'k adapter \<Rightarrow> c_double \<Rightarrow> 'k process \<Rightarrow> ('k, unit) scoped" where
  "prepare_time_step self dt p =
     (let self1 = self\<lparr>previous_directory := os_getcwd p\<rparr>;
          p1 = os_chdir (working_directory self1) p
      in case ccall ''prepare_time_step'' (k_prepare_time_step (dll self1) dt) p1 of
           ((status, _), p2) \<Rightarrow>
             (case check_result status ''prepare_time_step'' [] of
                Inl e \<Rightarrow> (Inl e, self1, p2)
              | Inr _ \<Rightarrow> (Inr (), self1, os_chdir (previous_directory self1) p2)))"

definition do_time_step :: "'k adapter \<Rightarrow> 'k process \<Rightarrow> ('k, unit) scoped" where
  "do_time_step self p =
     (let self1 = self\<lparr>previous_directory := os_getcwd p\<rparr>;
          p1 = os_chdir (working_directory self1) p
      in case ccall ''do_time_step'' (k_do_time_step (dll self1)) p1 of
           ((status, _), p2) \<Rightarrow>
             (case check_result status ''do_time_step'' [] of
                Inl e \<Rightarrow> (Inl e, self1, p2)
              | Inr _ \<Rightarrow> (Inr (), self1, os_chdir (previous_directory self1) p2)))"

definition finalize_time_step :: "'k adapter \<Rightarrow> 'k process \<Rightarrow> ('k, unit) scoped" where
  "finalize_time_step self p =
     (let self1 = self\<lparr>previous_directory := os_getcwd p\<rparr>;
          p1 = os_chdir (working_directory self1) p
      in case ccall ''finalize_time_step'' (k_finalize_time_step (dll self1)) p1 of
           ((status, _), p2) \<Rightarrow>
             (case check_result status ''finalize_time_step'' [] of
                Inl e \<Rightarrow> (Inl e, self1, p2)
              | Inr _ \<Rightarrow> (Inr (), self1, os_chdir (previous_directory self1) p2)))"

definition get_subcomponent_count :: "'k adapter \<Rightarrow> 'k process \<Rightarrow> ('k, int) query" where
  "get_subcomponent_count self p =
     (case ccall ''get_subcomponent_count'' (k_get_subcomponent_count (dll self)) p of
        ((status, count), p1) \<Rightarrow>
          (case check_result status ''get_subcomponent_count'' [] of
             Inl e \<Rightarrow> (Inl e, p1)
           | Inr _ \<Rightarrow> (Inr (sint count), p1)))"

definition prepare_solve :: "'k adapter \<Rightarrow> int \<Rightarrow> 'k process \<Rightarrow> ('k, unit) scoped" where
  "prepare_solve self component_id p =
     (let cid = (word_of_int component_id :: c_int);
          self1 = self\<lparr>previous_directory := os_getcwd p\<rparr>;
          p1 = os_chdir (working_directory self1) p
      in case ccall ''prepare_solve'' (k_prepare_solve (dll self1) cid) p1 of
           ((status, _), p2) \<Rightarrow>
             (case check_result status ''prepare_solve'' [] of
                Inl e \<Rightarrow> (Inl e, self1, p2)
              | Inr _ \<Rightarrow> (Inr (), self1, os_chdir (previous_directory self1) p2)))"

definition solve :: "'k adapter \<Rightarrow> int \<Rightarrow> 'k process \<Rightarrow> ('k, bool) scoped" where
  "solve self component_id p =
     (let cid = (word_of_int component_id :: c_int);
          self1 = self\<lparr>previous_directory := os_getcwd p\<rparr>;
          p1 = os_chdir (working_directory self1) p
      in case ccall ''solve'' (k_solve (dll self1) cid) p1 of
           ((status, has_converged), p2) \<Rightarrow>
             (case check_result status ''solve'' [] of
                Inl e \<Rightarrow> (Inl e, self1, p2)
              | Inr _ \<Rightarrow>
                  (Inr (sint has_converged = 1), self1,
                   os_chdir (previous_directory self1) p2)))"

definition finalize_solve :: "'k adapter \<Rightarrow> int \<Rightarrow> 'k process \<Rightarrow> ('k, unit) scoped" where
  "finalize_solve self component_id p =
     (let cid = (word_of_int component_id :: c_int);
          self1 = self\<lparr>previous_directory := os_getcwd p\<rparr>;
          p1 = os_chdir (working_directory self1) p
      in case ccall ''finalize_solve'' (k_finalize_solve (dll self1) cid) p1 of
           ((status, _), p2) \<Rightarrow>
             (case check_result status ''finalize_solve'' [] of
                Inl e \<Rightarrow> (Inl e, self1, p2)
              | Inr _ \<Rightarrow> (Inr (), self1, os_chdir (previous_directory self1) p2)))"

section \<open>Methods the wrapper does not implement\<close>

text \<open>Each of these is the single statement \<^verbatim>\<open>raise NotImplementedError\<close>.\<close>

definition get_component_name :: "'k adapter \<Rightarrow> 'k process \<Rightarrow> ('k, string) query" where
  "get_component_name self p = (Inl NotImplementedError, p)"

definition get_input_item_count :: "'k adapter \<Rightarrow> 'k process \<Rightarrow> ('k, int) query" where
  "get_input_item_count self p = (Inl NotImplementedError, p)"

definition get_output_item_count :: "'k adapter \<Rightarrow> 'k process \<Rightarrow> ('k, int) query" where
  "get_output_item_count self p = (Inl NotImplementedError, p)"

definition get_input_var_names :: "'k adapter \<Rightarrow> 'k process \<Rightarrow> ('k, string list) query" where
  "get_input_var_names self p = (Inl NotImplementedError, p)"

definition get_output_var_names :: "'k adapter \<Rightarrow> 'k process \<Rightarrow> ('k, string list) query" where
  "get_output_var_names self p = (Inl NotImplementedError, p)"

definition get_var_grid :: "'k adapter \<Rightarrow> string \<Rightarrow> 'k process \<Rightarrow> ('k, int) query" where
  "get_var_grid self name p = (Inl NotImplementedError, p)"

definition get_var_units :: "'k adapter \<Rightarrow> string \<Rightarrow> 'k process \<Rightarrow> ('k, string) query" where
  "get_var_units self name p = (Inl NotImplementedError, p)"

definition get_var_location :: "'k adapter \<Rightarrow> string \<Rightarrow> 'k process \<Rightarrow> ('k, string) query" where
  "get_var_location self name p = (Inl NotImplementedError, p)"

definition get_time_units :: "'k adapter \<Rightarrow> 'k process \<Rightarrow> ('k, string) query" where
  "get_time_units self p = (Inl NotImplementedError, p)"

definition get_value :: "'k adapter \<Rightarrow> string \<Rightarrow> (c_double list) \<Rightarrow> 'k process \<Rightarrow> ('k, c_double list) query" where
  "get_value self name dest p = (Inl NotImplementedError, p)"

definition get_value_at_indices :: "'k adapter \<Rightarrow> string \<Rightarrow> (c_double list) \<Rightarrow> (int list) \<Rightarrow> 'k process \<Rightarrow> ('k, c_double list) query" where
  "get_value_at_indices self name dest inds p = (Inl NotImplementedError, p)"

definition set_value :: "'k adapter \<Rightarrow> string \<Rightarrow> (c_double list) \<Rightarrow> 'k process \<Rightarrow> ('k, unit) query" where
  "set_value self name values p = (Inl NotImplementedError, p)"

definition set_value_at_indices :: "'k adapter \<Rightarrow> string \<Rightarrow> (int list) \<Rightarrow> (c_double list) \<Rightarrow> 'k process \<Rightarrow> ('k, unit) query" where
  "set_value_at_indices self name inds src p = (Inl NotImplementedError, p)"

definition get_grid_size :: "'k adapter \<Rightarrow> int \<Rightarrow> 'k process \<Rightarrow> ('k, int) query" where
  "get_grid_size self grid p = (Inl NotImplementedError, p)"

definition get_grid_spacing :: "'k adapter \<Rightarrow> int \<Rightarrow> (c_double list) \<Rightarrow> 'k process \<Rightarrow> ('k, c_double list) query" where
  "get_grid_spacing self grid spacing p = (Inl NotImplementedError, p)"

definition get_grid_origin :: "'k adapter \<Rightarrow> int \<Rightarrow> (c_double list) \<Rightarrow> 'k process \<Rightarrow> ('k, c_double list) query" where
  "get_grid_origin self grid origin p = (Inl NotImplementedError, p)"

definition get_grid_node_count :: "'k adapter \<Rightarrow> int \<Rightarrow> 'k process \<Rightarrow> ('k, int) query" where
  "get_grid_node_count self grid p = (Inl NotImplementedError, p)"

definition get_grid_edge_count :: "'k adapter \<Rightarrow> int \<Rightarrow> 'k process \<Rightarrow> ('k, int) query" where
  "get_grid_edge_count self grid p = (Inl NotImplementedError, p)"

definition get_grid_face_count :: "'k adapter \<Rightarrow> int \<Rightarrow> 'k process \<Rightarrow> ('k, int) query" where
  "get_grid_face_count self grid p = (Inl NotImplementedError, p)"

definition get_grid_edge_nodes :: "'k adapter \<Rightarrow> int \<Rightarrow> (int list) \<Rightarrow> 'k process \<Rightarrow> ('k, int list) query" where
  "get_grid_edge_nodes self grid edge_nodes p = (Inl NotImplementedError, p)"

definition get_grid_face_edges :: "'k adapter \<Rightarrow> int \<Rightarrow> (int list) \<Rightarrow> 'k process \<Rightarrow> ('k, int list) query" where
  "get_grid_face_edges self grid face_edges p = (Inl NotImplementedError, p)"

definition get_grid_face_nodes :: "'k adapter \<Rightarrow> int \<Rightarrow> (int list) \<Rightarrow> 'k process \<Rightarrow> ('k, int list) query" where
  "get_grid_face_nodes self grid face_nodes p = (Inl NotImplementedError, p)"

definition get_grid_nodes_per_face :: "'k adapter \<Rightarrow> int \<Rightarrow> (int list) \<Rightarrow> 'k process \<Rightarrow> ('k, int list) query" where
  "get_grid_nodes_per_face self grid nodes_per_face p = (Inl NotImplementedError, p)"

section \<open>Method calls as data\<close>

text \<open>
  The kernel-calling methods of the wrapper with their arguments, the values they return,
  and the call of a method on a wrapper, so that a property can be stated for every
  method at once.
\<close>

datatype call =
    Initialize string
  | Update
  | Update_until c_double
  | Finalize
  | Get_current_time
  | Get_start_time
  | Get_end_time
  | Get_time_step
  | Get_var_type string
  | Get_var_shape string
  | Get_var_rank string
  | Get_var_itemsize string
  | Get_var_nbytes string
  | Get_value_ptr string
  | Get_value_ptr_scalar string
  | Get_grid_rank int
  | Get_grid_type int
  | Get_grid_shape int "c_int list"
  | Get_grid_x int "c_double list"
  | Get_grid_y int "c_double list"
  | Get_grid_z int "c_double list"
  | Prepare_time_step c_double
  | Do_time_step
  | Finalize_time_step
  | Get_subcomponent_count
  | Prepare_solve int
  | Solve int
  | Finalize_solve int

datatype pyvalue =
    PNone
  | PFloat c_double
  | PInt int
  | PStr string
  | PBool bool
  | PIntArray "c_int list"
  | PFloatArray "c_double list"
  | PView ndarray

definition returns :: "('a \<Rightarrow> pyvalue) \<Rightarrow> ('k, 'a) scoped \<Rightarrow> ('k, pyvalue) scoped" where
  "returns f x = (case x of (r, self', p') \<Rightarrow> (map_sum id f r, self', p'))"

definition answers ::
  "'k adapter \<Rightarrow> ('a \<Rightarrow> pyvalue) \<Rightarrow> ('k, 'a) query \<Rightarrow> ('k, pyvalue) scoped" where
  "answers self f x = (case x of (r, p') \<Rightarrow> (map_sum id f r, self, p'))"

definition view_or_none :: "ndarray option \<Rightarrow> pyvalue" where
  "view_or_none v = (case v of None \<Rightarrow> PNone | Some a \<Rightarrow> PView a)"

fun call_method :: "'k adapter \<Rightarrow> call \<Rightarrow> 'k process \<Rightarrow> ('k, pyvalue) scoped" where
  "call_method self (Initialize config_file) p = returns (\<lambda>_. PNone) (initialize self config_file p)"
| "call_method self Update p = returns (\<lambda>_. PNone) (update self p)"
| "call_method self (Update_until time) p = returns (\<lambda>_. PNone) (update_until self time p)"
| "call_method self Finalize p = returns (\<lambda>_. PNone) (finalize self p)"
| "call_method self Get_current_time p = answers self PFloat (get_current_time self p)"
| "call_method self Get_start_time p = answers self PFloat (get_start_time self p)"
| "call_method self Get_end_time p = answers self PFloat (get_end_time self p)"
| "call_method self Get_time_step p = answers self PFloat (get_time_step self p)"
| "call_method self (Get_var_type name) p = answers self PStr (get_var_type self name p)"
| "call_method self (Get_var_shape name) p = answers self PIntArray (get_var_shape self name p)"
| "call_method self (Get_var_rank name) p = answers self PInt (get_var_rank self name p)"
| "call_method self (Get_var_itemsize name) p = answers self PInt (get_var_itemsize self name p)"
| "call_method self (Get_var_nbytes name) p = answers self PInt (get_var_nbytes self name p)"
| "call_method self (Get_value_ptr name) p = answers self view_or_none (get_value_ptr self name p)"
| "call_method self (Get_value_ptr_scalar name) p =
     answers self view_or_none (get_value_ptr_scalar self name p)"
| "call_method self (Get_grid_rank grid) p = answers self PInt (get_grid_rank self grid p)"
| "call_method self (Get_grid_type grid) p = answers self PStr (get_grid_type self grid p)"
| "call_method self (Get_grid_shape grid shape) p =
     answers self PIntArray (get_grid_shape self grid shape p)"
| "call_method self (Get_grid_x grid x) p = answers self PFloatArray (get_grid_x self grid x p)"
| "call_method self (Get_grid_y grid y) p = answers self PFloatArray (get_grid_y self grid y p)"
| "call_method self (Get_grid_z grid z) p = answers self PFloatArray (get_grid_z self grid z p)"
| "call_method self (Prepare_time_step dt) p = returns (\<lambda>_. PNone) (prepare_time_step self dt p)"
| "call_method self Do_time_step p = returns (\<lambda>_. PNone) (do_time_step self p)"
| "call_method self Finalize_time_step p = returns (\<lambda>_. PNone) (finalize_time_step self p)"
| "call_method self Get_subcomponent_count p =
     answers self PInt (get_subcomponent_count self p)"
| "call_method self (Prepare_solve component_id) p =
     returns (\<lambda>_. PNone) (prepare_solve self component_id p)"
| "call_method self (Solve component_id) p = returns PBool (solve self component_id p)"
| "call_method self (Finalize_solve component_id) p =
     returns (\<lambda>_. PNone) (finalize_solve self component_id p)"

text \<open>The methods that change to the working directory around the kernel call.\<close>

fun scoped_call :: "call \<Rightarrow> bool" where
  "scoped_call (Initialize _) = True"
| "scoped_call Update = True"
| "scoped_call (Update_until _) = True"
| "scoped_call Finalize = True"
| "scoped_call (Prepare_time_step _) = True"
| "scoped_call Do_time_step = True"
| "scoped_call Finalize_time_step = True"
| "scoped_call (Prepare_solve _) = True"
| "scoped_call (Solve _) = True"
| "scoped_call (Finalize_solve _) = True"
| "scoped_call _ = False"

text \<open>The kernel calls a method call added to the record of the process.\<close>

definition new_calls :: "'k process \<Rightarrow> 'k process \<Rightarrow> kcall list" where
  "new_calls p p' = drop (length (observed p)) (observed p')"

section \<open>A kernel for examples\<close>

text \<open>
  A kernel without state: every function returns the status \<open>status fname\<close> chosen for
  its name; every variable has rank \<open>rank\<close>, type \<open>vartype\<close> and shape entries \<open>shape\<close>,
  its values are at address 4096, and every integer output is \<open>out\<close>.
\<close>

definition fake_kernel ::
  "(string \<Rightarrow> c_int) \<Rightarrow> c_int \<Rightarrow> string \<Rightarrow> c_int list \<Rightarrow> c_int \<Rightarrow> unit kernel" where
  "fake_kernel status rank vartype shape out =
     \<lparr>k_constants = (\<lambda>name. if name = ''MAXSTRLEN'' then Some 300 else None),
      k_initialize = (\<lambda>_ _ k. ((status ''initialize'', ()), k)),
      k_update = (\<lambda>_ k. ((status ''update'', ()), k)),
      k_finalize = (\<lambda>_ k. ((status ''finalize'', ()), k)),
      k_get_current_time = (\<lambda>_ k. ((status ''get_current_time'', 0), k)),
      k_get_start_time = (\<lambda>_ k. ((status ''get_start_time'', 0), k)),
      k_get_end_time = (\<lambda>_ k. ((status ''get_end_time'', 0), k)),
      k_get_time_step = (\<lambda>_ k. ((status ''get_time_step'', 0), k)),
      k_get_var_type = (\<lambda>_ _ k. ((status ''get_var_type'', vartype), k)),
      k_get_var_shape = (\<lambda>_ _ k. ((status ''get_var_shape'', shape), k)),
      k_get_var_rank = (\<lambda>_ _ k. ((status ''get_var_rank'', rank), k)),
      k_get_var_itemsize = (\<lambda>_ _ k. ((status ''get_var_itemsize'', out), k)),
      k_get_var_nbytes = (\<lambda>_ _ k. ((status ''get_var_nbytes'', out), k)),
      k_get_value_ptr_double = (\<lambda>_ _ k. ((status ''get_value_ptr_double'', 4096), k)),
      k_get_value_ptr_int = (\<lambda>_ _ k. ((status ''get_value_ptr_int'', 4096), k)),
      k_get_grid_rank = (\<lambda>_ _ k. ((status ''get_grid_rank'', out), k)),
      k_get_grid_type = (\<lambda>_ _ k. ((status ''get_grid_type'', ''rectilinear''), k)),
      k_get_grid_shape = (\<lambda>_ _ k. ((status ''get_grid_shape'', shape), k)),
      k_get_grid_x = (\<lambda>_ _ k. ((status ''get_grid_x'', []), k)),
      k_get_grid_y = (\<lambda>_ _ k. ((status ''get_grid_y'', []), k)),
      k_get_grid_z = (\<lambda>_ _ k. ((status ''get_grid_z'', []), k)),
      k_prepare_time_step = (\<lambda>_ _ k. ((status ''prepare_time_step'', ()), k)),
      k_do_time_step = (\<lambda>_ k. ((status ''do_time_step'', ()), k)),
      k_finalize_time_step = (\<lambda>_ k. ((status ''finalize_time_step'', ()), k)),
      k_get_subcomponent_count = (\<lambda>_ k. ((status ''get_subcomponent_count'', out), k)),
      k_prepare_solve = (\<lambda>_ _ k. ((status ''prepare_solve'', ()), k)),
      k_solve = (\<lambda>_ _ k. ((status ''solve'', out), k)),
      k_finalize_solve = (\<lambda>_ _ k. ((status ''finalize_solve'', ()), k))\<rparr>"

text \<open>A wrapper on that kernel with a working directory assigned by the caller, and a
  process whose current directory is the caller's.\<close>

definition fake_adapter :: "unit kernel \<Rightarrow> path \<Rightarrow> unit adapter" where
  "fake_adapter k wd =
     \<lparr>lib_path = ''libmf6.so'', dll = k, MAXSTRLEN = 300,
      working_directory = wd, previous_directory = ''.''\<rparr>"

definition fake_process :: "path \<Rightarrow> unit process" where
  "fake_process d = \<lparr>cwd = d, kstate = (), observed = []\<rparr>"




text \<open>A loader that finds that kernel, with every status zero, under one file name.\<close>

definition fake_loader :: "string \<Rightarrow> unit kernel option" where
  "fake_loader path =
     (if path = ''libmf6.so'' then Some (fake_kernel (\<lambda>_. 0) 0 [] [] 0) else None)"

section \<open>Vocabulary of the properties\<close>

text \<open>The directory in which a method runs its kernel calls.\<close>

definition kernel_dir :: "'k adapter \<Rightarrow> call \<Rightarrow> 'k process \<Rightarrow> path" where
  "kernel_dir self m p =
     (if scoped_call m then resolve (cwd p) (working_directory self) else cwd p)"

text \<open>
  The methods that make one kernel call and have no other way to fail. The others are
  \<^verbatim>\<open>update_until\<close> (no kernel call), \<^verbatim>\<open>get_var_shape\<close> (two calls, and \<^verbatim>\<open>np.zeros\<close>)
  and the two value-pointer methods (up to five calls, \<^verbatim>\<open>assert False\<close>).
\<close>

fun plain_call :: "call \<Rightarrow> bool" where
  "plain_call (Update_until _) = False"
| "plain_call (Get_var_shape _) = False"
| "plain_call (Get_value_ptr _) = False"
| "plain_call (Get_value_ptr_scalar _) = False"
| "plain_call _ = True"

text \<open>
  The function name a message carries for a kernel function: the wrapper passes the
  kernel function's own name to \<^verbatim>\<open>check_result\<close>, except after the two pointer
  queries, where it passes \<^verbatim>\<open>"get_value_ptr"\<close>.
\<close>

definition reported_name :: "string \<Rightarrow> string" where
  "reported_name f =
     (if f = ''get_value_ptr_double'' \<or> f = ''get_value_ptr_int'' then ''get_value_ptr'' else f)"

definition update_until_message :: string where
  "update_until_message = ''MODFLOW 6 BMI, exception in: update_until ()''"

definition raised :: "exn + 'a \<Rightarrow> exn option" where
  "raised r = (case r of Inl e \<Rightarrow> Some e | Inr _ \<Rightarrow> None)"

text \<open>
  How the exception of a method relates to the statuses of the kernel calls \<open>cs\<close> it
  made: every call before the last succeeded, and the method raised the exception of
  \<^verbatim>\<open>check_result\<close> exactly when the last call failed, with a message that starts with the
  reported name of that kernel function.
\<close>

definition outcome :: "exn option \<Rightarrow> kcall list \<Rightarrow> bool" where
  "outcome r cs =
     ((\<forall>c\<in>set (butlast cs). kc_status c = 0) \<and>
      (case r of
         Some (Exception msg) \<Rightarrow>
           cs \<noteq> [] \<and> kc_status (last cs) \<noteq> 0 \<and>
           prefix (''MODFLOW 6 BMI, exception in: '' @ reported_name (kc_name (last cs)) @ '' ('') msg
       | _ \<Rightarrow> (\<forall>c\<in>set cs. kc_status c = 0)))"










section \<open>The effect of a method call\<close>

lemmas scoped_defs = initialize_def update_def finalize_def prepare_time_step_def
  do_time_step_def finalize_time_step_def prepare_solve_def solve_def finalize_solve_def

lemmas plain_query_defs = get_current_time_def get_start_time_def get_end_time_def
  get_time_step_def get_var_type_def get_var_rank_def get_var_itemsize_def get_var_nbytes_def
  get_grid_rank_def get_grid_type_def get_grid_shape_def get_grid_x_def get_grid_y_def
  get_grid_z_def get_subcomponent_count_def

lemmas fake_defs = fake_adapter_def fake_kernel_def fake_process_def

lemma raised_simps [simp]:
  "raised (Inl e) = Some e" "raised (Inr x) = None" "raised (map_sum id f r) = raised r"
  by (auto simp: raised_def split: sum.splits)

lemma outcome_None [simp]: "outcome None cs \<longleftrightarrow> (\<forall>c\<in>set cs. kc_status c = 0)"
  by (auto simp: outcome_def dest: in_set_butlastD)

lemma outcome_other [simp]:
  "outcome (Some AssertionError) cs \<longleftrightarrow> (\<forall>c\<in>set cs. kc_status c = 0)"
  "outcome (Some ValueError) cs \<longleftrightarrow> (\<forall>c\<in>set cs. kc_status c = 0)"
  by (auto simp: outcome_def dest: in_set_butlastD)

lemma outcome_append_zero:
  "\<forall>c\<in>set cs1. kc_status c = 0 \<Longrightarrow> outcome r (cs1 @ cs2) = outcome r cs2"
  by (cases "cs2 = []")
     (auto simp: outcome_def butlast_append split: option.splits exn.splits
           dest: in_set_butlastD)

lemma outcome_single:
  "outcome (Some (Exception msg)) [c] \<longleftrightarrow>
     kc_status c \<noteq> 0 \<and>
     prefix (''MODFLOW 6 BMI, exception in: '' @ reported_name (kc_name c) @ '' ('') msg"
  by (simp add: outcome_def)

lemma resolve_absolute: "is_absolute d \<Longrightarrow> resolve cur d = d"
  by (auto simp: resolve_def is_absolute_def split: list.splits)

lemma ccall_effect:
  "ccall n f p = ((st, out), p') \<Longrightarrow>
     cwd p' = cwd p \<and>
     observed p' = observed p @ [\<lparr>kc_name = n, kc_cwd = cwd p, kc_status = st\<rparr>]"
  by (auto simp: ccall_def split: prod.splits)

lemma get_var_rank_effect:
  "get_var_rank self name p = (r, p') \<Longrightarrow>
     \<exists>cs. cwd p' = cwd p \<and> observed p' = observed p @ cs \<and>
          (\<forall>c\<in>set cs. kc_cwd c = cwd p) \<and> outcome (raised r) cs"
  by (auto simp: get_var_rank_def ccall_def check_result_def BMI_SUCCESS_def outcome_single
        reported_name_def split: prod.splits if_splits)

lemma get_var_type_effect:
  "get_var_type self name p = (r, p') \<Longrightarrow>
     \<exists>cs. cwd p' = cwd p \<and> observed p' = observed p @ cs \<and>
          (\<forall>c\<in>set cs. kc_cwd c = cwd p) \<and> outcome (raised r) cs"
  by (auto simp: get_var_type_def ccall_def check_result_def BMI_SUCCESS_def outcome_single
        reported_name_def split: prod.splits if_splits)

lemma get_var_shape_effect:
  "get_var_shape self name p = (r, p') \<Longrightarrow>
     \<exists>cs. cwd p' = cwd p \<and> observed p' = observed p @ cs \<and>
          (\<forall>c\<in>set cs. kc_cwd c = cwd p) \<and> outcome (raised r) cs"
  unfolding get_var_shape_def
  by (auto simp: check_result_def BMI_SUCCESS_def outcome_single outcome_append_zero
        reported_name_def np_zeros_def
        split: prod.splits sum.splits if_splits dest!: get_var_rank_effect ccall_effect)

lemma get_value_ptr_scalar_effect:
  "get_value_ptr_scalar self name p = (r, p') \<Longrightarrow>
     \<exists>cs. cwd p' = cwd p \<and> observed p' = observed p @ cs \<and>
          (\<forall>c\<in>set cs. kc_cwd c = cwd p) \<and> outcome (raised r) cs"
  unfolding get_value_ptr_scalar_def
  by (auto simp: check_result_def BMI_SUCCESS_def outcome_single outcome_append_zero
        reported_name_def Let_def
        split: prod.splits sum.splits if_splits dest!: get_var_type_effect ccall_effect)

lemma get_value_ptr_effect:
  "get_value_ptr self name p = (r, p') \<Longrightarrow>
     \<exists>cs. cwd p' = cwd p \<and> observed p' = observed p @ cs \<and>
          (\<forall>c\<in>set cs. kc_cwd c = cwd p) \<and> outcome (raised r) cs"
  unfolding get_value_ptr_def
  by (auto simp: check_result_def BMI_SUCCESS_def outcome_single outcome_append_zero
        reported_name_def Let_def
        split: prod.splits sum.splits if_splits
        dest!: get_var_rank_effect get_var_type_effect get_var_shape_effect
               get_value_ptr_scalar_effect ccall_effect)

text \<open>
  Every method call in one statement: the kernel calls it adds all ran in one directory,
  its exception follows the statuses, and the directory it leaves the process in.
\<close>

lemma call_method_effect:
  assumes "call_method self m p = (r, self', p')"
  shows "\<exists>cs. observed p' = observed p @ cs \<and>
      (\<forall>c\<in>set cs. kc_cwd c = kernel_dir self m p) \<and>
      (if (\<exists>t. m = Update_until t) then cs = [] \<and> r = Inl (Exception update_until_message)
       else outcome (raised r) cs) \<and>
      (plain_call m \<longrightarrow> length cs = 1 \<and> (\<forall>e. r = Inl e \<longrightarrow> (\<exists>msg. e = Exception msg))) \<and>
      cwd p' = (if scoped_call m
                then (if isl r then resolve (cwd p) (working_directory self)
                      else resolve (resolve (cwd p) (working_directory self)) (cwd p))
                else cwd p)"
proof (cases m)
  case (Get_var_shape name)
  then show ?thesis using assms
    by (auto simp: answers_def kernel_dir_def split: prod.splits dest!: get_var_shape_effect)
next
  case (Get_value_ptr name)
  then show ?thesis using assms
    by (auto simp: answers_def kernel_dir_def split: prod.splits dest!: get_value_ptr_effect)
next
  case (Get_value_ptr_scalar name)
  then show ?thesis using assms
    by (auto simp: answers_def kernel_dir_def split: prod.splits
          dest!: get_value_ptr_scalar_effect)
next
  case (Update_until t)
  then show ?thesis using assms
    by (auto simp: returns_def kernel_dir_def update_until_def update_until_message_def Let_def
          check_result_def BMI_SUCCESS_def BMI_FAILURE_def os_chdir_def os_getcwd_def)
qed (use assms in \<open>auto simp: returns_def answers_def kernel_dir_def scoped_defs
        plain_query_defs Let_def ccall_def check_result_def BMI_SUCCESS_def os_chdir_def
        os_getcwd_def outcome_single reported_name_def split: prod.splits if_splits\<close>)

lemma new_calls_append: "observed p' = observed p @ cs \<Longrightarrow> new_calls p p' = cs"
  by (simp add: new_calls_def)

lemma sint_eq_1_iff: "sint (w :: c_int) = 1 \<longleftrightarrow> w = 1"
  using word_eq_iff_signed [where ?'a = int, of w 1] by simp

section \<open>Unimplemented methods\<close>

lemmas unimplemented_defs = get_component_name_def get_input_item_count_def
  get_output_item_count_def get_input_var_names_def get_output_var_names_def get_var_grid_def
  get_var_units_def get_var_location_def get_time_units_def get_value_def
  get_value_at_indices_def set_value_def set_value_at_indices_def get_grid_size_def
  get_grid_spacing_def get_grid_origin_def get_grid_node_count_def get_grid_edge_count_def
  get_grid_face_count_def get_grid_edge_nodes_def get_grid_face_edges_def
  get_grid_face_nodes_def get_grid_nodes_per_face_def

text \<open>
  Claim C7. For every wrapper, argument and process state, \<^verbatim>\<open>update_until\<close> fails: it
  raises the exception of \<^verbatim>\<open>check_result\<close> for the function name \<^verbatim>\<open>update_until\<close>. Each of
  the twenty-three methods the wrapper does not implement raises \<^verbatim>\<open>NotImplementedError\<close>
  on every invocation and leaves the process as it was.
\<close>

theorem unimplemented_methods_always_raise:
  "fst (update_until self time p)
     = Inl (Exception ''MODFLOW 6 BMI, exception in: update_until ()'') \<and>
   get_component_name self p = (Inl NotImplementedError, p) \<and>
   get_input_item_count self p = (Inl NotImplementedError, p) \<and>
   get_output_item_count self p = (Inl NotImplementedError, p) \<and>
   get_input_var_names self p = (Inl NotImplementedError, p) \<and>
   get_output_var_names self p = (Inl NotImplementedError, p) \<and>
   get_var_grid self name p = (Inl NotImplementedError, p) \<and>
   get_var_units self name p = (Inl NotImplementedError, p) \<and>
   get_var_location self name p = (Inl NotImplementedError, p) \<and>
   get_time_units self p = (Inl NotImplementedError, p) \<and>
   get_value self name dest p = (Inl NotImplementedError, p) \<and>
   get_value_at_indices self name dest inds p = (Inl NotImplementedError, p) \<and>
   set_value self name vals p = (Inl NotImplementedError, p) \<and>
   set_value_at_indices self name inds src p = (Inl NotImplementedError, p) \<and>
   get_grid_size self grid p = (Inl NotImplementedError, p) \<and>
   get_grid_spacing self grid spacing p = (Inl NotImplementedError, p) \<and>
   get_grid_origin self grid origin p = (Inl NotImplementedError, p) \<and>
   get_grid_node_count self grid p = (Inl NotImplementedError, p) \<and>
   get_grid_edge_count self grid p = (Inl NotImplementedError, p) \<and>
   get_grid_face_count self grid p = (Inl NotImplementedError, p) \<and>
   get_grid_edge_nodes self grid edge_nodes p = (Inl NotImplementedError, p) \<and>
   get_grid_face_edges self grid face_edges p = (Inl NotImplementedError, p) \<and>
   get_grid_face_nodes self grid face_nodes p = (Inl NotImplementedError, p) \<and>
   get_grid_nodes_per_face self grid nodes_per_face p = (Inl NotImplementedError, p)"
  by (simp add: unimplemented_defs update_until_def check_result_def BMI_SUCCESS_def
        BMI_FAILURE_def Let_def)

section \<open>Convergence decoding\<close>

text \<open>
  Claim C6. When the kernel's \<^verbatim>\<open>solve\<close>, run in the working directory, returns status 0 and
  leaves \<open>has_converged\<close> in the output integer, \<^verbatim>\<open>solve\<close> returns the truth value of
  \<open>has_converged = 1\<close>: true for 1, false for every other integer.
\<close>

theorem solve_decodes_convergence:
  assumes "k_solve (dll self) (word_of_int component_id)
             (resolve (cwd p) (working_directory self)) (kstate p) = ((0, has_converged), k')"
  shows "fst (solve self component_id p) = Inr (has_converged = 1)"
  using assms
  by (simp add: solve_def Let_def ccall_def os_chdir_def os_getcwd_def check_result_def
        BMI_SUCCESS_def sint_eq_1_iff)

theorem solve_decodes_convergence_witness:
  "fst (solve (fake_adapter (fake_kernel (\<lambda>_. 0) 0 [] [] 1) ''/model'') 0
          (fake_process ''/home'')) = Inr True \<and>
   fst (solve (fake_adapter (fake_kernel (\<lambda>_. 0) 0 [] [] 2) ''/model'') 0
          (fake_process ''/home'')) = Inr False \<and>
   fst (solve (fake_adapter (fake_kernel (\<lambda>_. 0) 0 [] [] (- 1)) ''/model'') 0
          (fake_process ''/home'')) = Inr False"
  using solve_decodes_convergence
          [of "fake_adapter (fake_kernel (\<lambda>_. 0) 0 [] [] 1) ''/model''" 0
              "fake_process ''/home''" 1 "()"]
        solve_decodes_convergence
          [of "fake_adapter (fake_kernel (\<lambda>_. 0) 0 [] [] 2) ''/model''" 0
              "fake_process ''/home''" 2 "()"]
        solve_decodes_convergence
          [of "fake_adapter (fake_kernel (\<lambda>_. 0) 0 [] [] (- 1)) ''/model''" 0
              "fake_process ''/home''" "- 1" "()"]
  by (simp add: fake_defs)

section \<open>The detail of a grid query's exception\<close>

text \<open>
  Claim C9. On a kernel whose grid functions return status 1, the grid queries called for
  grid 7 raise: \<^verbatim>\<open>get_grid_rank\<close> with the detail \<^verbatim>\<open>for id 7\<close>, but \<^verbatim>\<open>get_grid_shape\<close>,
  \<^verbatim>\<open>get_grid_x\<close>, \<^verbatim>\<open>get_grid_y\<close> and \<^verbatim>\<open>get_grid_z\<close> with the text of Python's built-in
  function \<^verbatim>\<open>id\<close> in place of the grid identifier.
\<close>

theorem grid_error_detail_lacks_grid_id:
  "fst (get_grid_shape (fake_adapter (fake_kernel (\<lambda>_. 1) 0 [] [] 0) ''.'') 7 [0, 0]
          (fake_process ''/home''))
     = Inl (Exception
         ''MODFLOW 6 BMI, exception in: get_grid_shape (for id <built-in function id>)'') \<and>
   fst (get_grid_x (fake_adapter (fake_kernel (\<lambda>_. 1) 0 [] [] 0) ''.'') 7 [0, 0]
          (fake_process ''/home''))
     = Inl (Exception
         ''MODFLOW 6 BMI, exception in: get_grid_x (for id <built-in function id>)'') \<and>
   fst (get_grid_y (fake_adapter (fake_kernel (\<lambda>_. 1) 0 [] [] 0) ''.'') 7 [0, 0]
          (fake_process ''/home''))
     = Inl (Exception
         ''MODFLOW 6 BMI, exception in: get_grid_y (for id <built-in function id>)'') \<and>
   fst (get_grid_z (fake_adapter (fake_kernel (\<lambda>_. 1) 0 [] [] 0) ''.'') 7 [0, 0]
          (fake_process ''/home''))
     = Inl (Exception
         ''MODFLOW 6 BMI, exception in: get_grid_z (for id <built-in function id>)'') \<and>
   fst (get_grid_rank (fake_adapter (fake_kernel (\<lambda>_. 1) 0 [] [] 0) ''.'') 7
          (fake_process ''/home''))
     = Inl (Exception ''MODFLOW 6 BMI, exception in: get_grid_rank (for id 7)'')"
  by (simp add: get_grid_shape_def get_grid_x_def get_grid_y_def get_grid_z_def
        get_grid_rank_def ccall_def check_result_def BMI_SUCCESS_def fake_defs
        str_builtin_id_def str_int_def Let_def)

section \<open>The constructor\<close>

text \<open>
  Claim C10. The constructor takes the path of the kernel module and no working
  directory. A wrapper it returns has both \<^verbatim>\<open>working_directory\<close> and
  \<^verbatim>\<open>previous_directory\<close> equal to \<^verbatim>\<open>"."\<close>; no method assigns the working directory, and
  every kernel call of a directory-changing method on that wrapper runs in the current
  directory of the caller.
\<close>

theorem constructor_sets_both_directories:
  assumes "init LoadLibrary path = Inr self"
  shows "lib_path self = path \<and> working_directory self = ''.'' \<and>
         previous_directory self = ''.'' \<and>
         (\<forall>m p r self' p'. scoped_call m \<longrightarrow> call_method self m p = (r, self', p') \<longrightarrow>
            working_directory self' = ''.'' \<and>
            (\<forall>c\<in>set (new_calls p p'). kc_cwd c = cwd p))"
proof -
  have wd: "lib_path self = path \<and> working_directory self = ''.'' \<and>
            previous_directory self = ''.''"
    using assms by (auto simp: init_def split: option.splits sum.splits)
  have "working_directory self' = ''.'' \<and> (\<forall>c\<in>set (new_calls p p'). kc_cwd c = cwd p)"
    if "scoped_call m" and run: "call_method self m p = (r, self', p')" for m p r self' p'
  proof -
    from call_method_effect [OF run] obtain cs where
      cs: "observed p' = observed p @ cs" "\<forall>c\<in>set cs. kc_cwd c = kernel_dir self m p"
      by blast
    have "working_directory self' = working_directory self"
      using run that(1)
      by (cases m)
         (auto simp: returns_def scoped_defs update_until_def Let_def
               split: prod.splits sum.splits)
    with wd cs that(1) show ?thesis
      by (simp add: new_calls_append kernel_dir_def resolve_def)
  qed
  with wd show ?thesis by blast
qed

theorem constructor_sets_both_directories_witness:
  "init fake_loader ''libmf6.so''
     = Inr (fake_adapter (fake_kernel (\<lambda>_. 0) 0 [] [] 0) ''.'') \<and>
   working_directory (fake_adapter (fake_kernel (\<lambda>_. 0) 0 [] [] 0) ''.'') = ''.'' \<and>
   observed (snd (snd (call_method (fake_adapter (fake_kernel (\<lambda>_. 0) 0 [] [] 0) ''.'')
                         Update (fake_process ''/home''))))
     = [\<lparr>kc_name = ''update'', kc_cwd = ''/home'', kc_status = 0\<rparr>]"
proof -
  have i: "init fake_loader ''libmf6.so''
             = Inr (fake_adapter (fake_kernel (\<lambda>_. 0) 0 [] [] 0) ''.'')"
    by (simp add: init_def fake_loader_def get_constant_int_def fake_defs)
  from constructor_sets_both_directories [OF i] i show ?thesis
    by (simp add: returns_def update_def Let_def ccall_def check_result_def BMI_SUCCESS_def
          os_chdir_def os_getcwd_def resolve_def fake_defs)
qed

section \<open>Trimming the shape array\<close>

lemma take_strip_back:
  "take (length xs - length (takeWhile P (rev xs))) xs = rev (dropWhile P (rev xs))"
proof -
  have "xs = rev (dropWhile P (rev xs)) @ rev (takeWhile P (rev xs))"
    by (metis rev_append rev_rev_ident takeWhile_dropWhile_id)
  moreover have "length xs - length (takeWhile P (rev xs)) = length (rev (dropWhile P (rev xs)))"
    by (metis add_diff_cancel_right' calculation length_append length_rev)
  ultimately show ?thesis
    by (metis append_eq_conv_conj)
qed

lemma takeWhile_strip_back:
  "length (takeWhile P (rev (dropWhile P (rev xs)))) = length (takeWhile P xs)
   \<or> rev (dropWhile P (rev xs)) = []"
proof (cases "dropWhile P (rev xs) = []")
  case True
  then show ?thesis by simp
next
  case False
  let ?ys = "rev (dropWhile P (rev xs))"
  have xs: "xs = ?ys @ rev (takeWhile P (rev xs))"
    by (metis rev_append rev_rev_ident takeWhile_dropWhile_id)
  have "\<not> P (hd (dropWhile P (rev xs)))"
    using False by (rule hd_dropWhile)
  then have "\<exists>y\<in>set ?ys. \<not> P y"
    using False by (metis hd_in_set set_rev)
  then have "takeWhile P (?ys @ rev (takeWhile P (rev xs))) = takeWhile P ?ys"
    by (metis takeWhile_append1)
  with xs show ?thesis by metis
qed

lemma trim_zeros_dropWhile:
  "trim_zeros xs = dropWhile (\<lambda>i. i = 0) (rev (dropWhile (\<lambda>i. i = 0) (rev xs)))"
proof -
  let ?P = "\<lambda>i. i = 0"
  let ?ys = "rev (dropWhile ?P (rev xs))"
  have "trim_zeros xs = drop (length (takeWhile ?P xs)) ?ys"
    by (simp add: trim_zeros_def Let_def take_strip_back)
  also have "\<dots> = dropWhile ?P ?ys"
    using takeWhile_strip_back [of ?P xs] by (auto simp: dropWhile_eq_drop)
  finally show ?thesis .
qed

lemma dropWhile_replicate: "\<exists>i. xs = replicate i (0::'a::zero) @ dropWhile (\<lambda>i. i = 0) xs"
proof -
  have "takeWhile (\<lambda>i. i = 0) xs = replicate (length (takeWhile (\<lambda>i. i = 0) xs)) (0::'a)"
    by (rule replicate_length_same [symmetric]) (auto dest: set_takeWhileD)
  then show ?thesis by (metis takeWhile_dropWhile_id)
qed

lemma trim_zeros_pads:
  "\<exists>i j. xs = replicate i (0::'a::zero) @ trim_zeros xs @ replicate j 0"
proof -
  let ?P = "\<lambda>i::'a. i = 0"
  obtain j where j: "rev xs = replicate j 0 @ dropWhile ?P (rev xs)"
    using dropWhile_replicate [of "rev xs"] by blast
  obtain i where i: "rev (dropWhile ?P (rev xs)) = replicate i 0 @ trim_zeros xs"
    using dropWhile_replicate [of "rev (dropWhile ?P (rev xs))"] by (auto simp: trim_zeros_dropWhile)
  have "xs = rev (dropWhile ?P (rev xs)) @ replicate j 0"
    using j by (metis rev_append rev_replicate rev_rev_ident)
  with i show ?thesis by auto
qed

lemma trim_zeros_ends:
  "trim_zeros xs = [] \<or> (hd (trim_zeros xs) \<noteq> 0 \<and> last (trim_zeros xs) \<noteq> 0)"
proof (cases "trim_zeros xs = []")
  case True then show ?thesis by simp
next
  case False
  let ?P = "\<lambda>i::'a. i = 0"
  let ?ys = "rev (dropWhile ?P (rev xs))"
  have t: "trim_zeros xs = dropWhile ?P ?ys" by (rule trim_zeros_dropWhile)
  have h: "hd (trim_zeros xs) \<noteq> 0"
    using False hd_dropWhile [of ?P ?ys] by (simp add: t)
  have ne: "dropWhile ?P (rev xs) \<noteq> []"
  proof
    assume "dropWhile ?P (rev xs) = []"
    then have "trim_zeros xs = []" unfolding t by (simp only: rev.simps dropWhile.simps)
    with False show False ..
  qed
  have "last ?ys \<noteq> 0"
    using ne hd_dropWhile [of ?P "rev xs"] by (simp add: last_rev)
  moreover have "last (dropWhile ?P ?ys) = last ?ys"
    using False t by (metis last_appendR takeWhile_dropWhile_id)
  ultimately show ?thesis using h t by simp
qed

lemma trim_zeros_noop:
  "trim_zeros xs = xs \<longleftrightarrow> (xs = [] \<or> (hd xs \<noteq> 0 \<and> last xs \<noteq> 0))"
proof
  assume "trim_zeros xs = xs"
  then show "xs = [] \<or> (hd xs \<noteq> 0 \<and> last xs \<noteq> 0)"
    using trim_zeros_ends [of xs] by simp
next
  assume a: "xs = [] \<or> (hd xs \<noteq> 0 \<and> last xs \<noteq> 0)"
  show "trim_zeros xs = xs"
  proof (cases "xs = []")
    case True then show ?thesis by (simp add: trim_zeros_def)
  next
    case False
    with a have h: "hd xs \<noteq> 0" and l: "last xs \<noteq> 0" by auto
    from False l have "hd (rev xs) \<noteq> 0" by (simp add: hd_rev)
    with False have "dropWhile (\<lambda>i. i = 0) (rev xs) = rev xs"
      by (cases "rev xs") auto
    moreover from False h have "dropWhile (\<lambda>i. i = 0) xs = xs"
      by (cases xs) auto
    ultimately show ?thesis by (simp add: trim_zeros_dropWhile)
  qed
qed

lemmas value_ptr_defs = get_value_ptr_def get_value_ptr_scalar_def get_var_rank_def
  get_var_type_def get_var_shape_def ccall_def check_result_def BMI_SUCCESS_def np_zeros_def
  fill_def trim_zeros_def startswith_def lower_def lower_char_def Let_def

lemma get_value_ptr_shape:
  assumes "get_var_rank self name p = (Inr rank, p1)" and "rank \<noteq> 0"
    and "get_var_type self name p1 = (Inr vartype, p2)"
    and "get_var_shape self name p2 = (Inr shape_array, p3)"
    and "get_value_ptr self name p = (Inr (Some v), p4)"
  shows "nd_shape (arraytype v) = trim_zeros shape_array \<and>
         nd_ndim (arraytype v) = length (trim_zeros shape_array)"
  using assms
  by (auto simp: get_value_ptr_def Let_def split: prod.splits sum.splits if_splits)

text \<open>
  Claim C4, as the code has it. The logical shape of the view \<^verbatim>\<open>get_value_ptr\<close> returns
  for a variable of non-zero rank is \<^verbatim>\<open>np.trim_zeros\<close> of the shape array, and its number
  of dimensions is the length of that. \<^verbatim>\<open>np.trim_zeros\<close> removes the zeros at both ends of
  the array, the leading ones as well as the trailing ones: the shape array is the
  logical shape with zeros before it and zeros after it, so every entry from the first
  non-zero entry to the last, interior zeros included, is kept in order. Trimming changes
  nothing exactly when the array is empty or neither starts nor ends with a zero.
\<close>

theorem logical_shape_trims_both_ends:
  assumes "get_var_rank self name p = (Inr rank, p1)" and "rank \<noteq> 0"
    and "get_var_type self name p1 = (Inr vartype, p2)"
    and "get_var_shape self name p2 = (Inr shape_array, p3)"
    and "get_value_ptr self name p = (Inr (Some v), p4)"
  shows "nd_shape (arraytype v) = trim_zeros shape_array \<and>
         nd_ndim (arraytype v) = length (trim_zeros shape_array) \<and>
         trim_zeros shape_array
           = dropWhile (\<lambda>i. i = 0) (rev (dropWhile (\<lambda>i. i = 0) (rev shape_array))) \<and>
         (\<exists>i j. shape_array = replicate i 0 @ trim_zeros shape_array @ replicate j 0) \<and>
         (trim_zeros shape_array = [] \<or>
            (hd (trim_zeros shape_array) \<noteq> 0 \<and> last (trim_zeros shape_array) \<noteq> 0)) \<and>
         (trim_zeros shape_array = shape_array \<longleftrightarrow>
            (shape_array = [] \<or> (hd shape_array \<noteq> 0 \<and> last shape_array \<noteq> 0)))"
  using get_value_ptr_shape [OF assms] trim_zeros_dropWhile [of shape_array]
    trim_zeros_pads [of shape_array] trim_zeros_ends [of shape_array]
    trim_zeros_noop [of shape_array]
  by blast

theorem logical_shape_trims_both_ends_witness:
  "nd_shape (arraytype \<lparr>arraytype = \<lparr>nd_dtype = int32, nd_ndim = 3, nd_shape = [3, 0, 4],
                                      nd_flags = ''F''\<rparr>, data = 4096\<rparr>) = trim_zeros [0, 3, 0, 4, 0 :: c_int] \<and>
   trim_zeros [0, 3, 0, 4, 0 :: c_int] = [3, 0, 4] \<and>
   trim_zeros [0, 3, 0, 4, 0 :: c_int] \<noteq> [0, 3, 0, 4, 0]"
proof -
  let ?self = "fake_adapter (fake_kernel (\<lambda>_. 0) 5 ''INTEGER'' [0, 3, 0, 4, 0] 0) ''.''"
  let ?p = "fake_process ''/home''"
  let ?c1 = "\<lparr>kc_name = ''get_var_rank'', kc_cwd = ''/home'', kc_status = 0\<rparr>"
  let ?c2 = "\<lparr>kc_name = ''get_var_type'', kc_cwd = ''/home'', kc_status = 0\<rparr>"
  let ?c3 = "\<lparr>kc_name = ''get_var_shape'', kc_cwd = ''/home'', kc_status = 0\<rparr>"
  let ?c4 = "\<lparr>kc_name = ''get_value_ptr_int'', kc_cwd = ''/home'', kc_status = 0\<rparr>"
  let ?p1 = "?p\<lparr>observed := [?c1]\<rparr>"
  let ?p2 = "?p\<lparr>observed := [?c1, ?c2]\<rparr>"
  let ?p3 = "?p\<lparr>observed := [?c1, ?c2, ?c1, ?c3]\<rparr>"
  let ?p4 = "?p\<lparr>observed := [?c1, ?c2, ?c1, ?c3, ?c4]\<rparr>"
  have 1: "get_var_rank ?self ''K'' ?p = (Inr 5, ?p1)"
    by (simp add: value_ptr_defs fake_defs)
  have 2: "(5::int) \<noteq> 0" by simp
  have 3: "get_var_type ?self ''K'' ?p1 = (Inr ''INTEGER'', ?p2)"
    by (simp add: value_ptr_defs fake_defs)
  have 4: "get_var_shape ?self ''K'' ?p2 = (Inr [0, 3, 0, 4, 0], ?p3)"
    by (simp add: value_ptr_defs fake_defs)
  have 5: "get_value_ptr ?self ''K'' ?p
    = (Inr (Some \<lparr>arraytype = \<lparr>nd_dtype = int32, nd_ndim = 3, nd_shape = [3, 0, 4],
                              nd_flags = ''F''\<rparr>, data = 4096\<rparr>), ?p4)"
    by (simp add: value_ptr_defs fake_defs)
  from logical_shape_trims_both_ends [OF 1 2 3 4 5] show ?thesis
    by (simp add: trim_zeros_def)
qed

text \<open>
  Claim C4 as stated fails: the shape array \<open>[0, 3, 4]\<close> has no trailing zero, yet trimming
  is not a no-op on it and its leading zero is not preserved; the view has shape
  \<open>(3, 4)\<close>.
\<close>

theorem leading_zero_trimmed_counterexample:
  "trim_zeros [0, 3, 4 :: c_int] = [3, 4] \<and> trim_zeros [0, 3, 4 :: c_int] \<noteq> [0, 3, 4] \<and>
   fst (get_value_ptr (fake_adapter (fake_kernel (\<lambda>_. 0) 3 ''INTEGER'' [0, 3, 4] 0) ''.'') ''K''
          (fake_process ''/home''))
     = Inr (Some \<lparr>arraytype = \<lparr>nd_dtype = int32, nd_ndim = 2, nd_shape = [3, 4],
                               nd_flags = ''F''\<rparr>, data = 4096\<rparr>)"
  by (simp add: value_ptr_defs fake_defs)

section \<open>The two-dimensional double variable\<close>




section \<open>Dispatch on the type string\<close>

lemma startswith_double_not_int:
  "startswith s ''double'' \<Longrightarrow> \<not> startswith s ''int''"
  by (cases s) (auto simp: startswith_def)

text \<open>
  Claim C3, as the code has it. When the rank and type queries succeed and the type
  string, in lower case, starts with \<^verbatim>\<open>double\<close> or \<^verbatim>\<open>int\<close>, \<^verbatim>\<open>get_value_ptr\<close> does not
  return \<^verbatim>\<open>None\<close>: it returns an array of type float64 for \<^verbatim>\<open>double\<close> and int32 for
  \<^verbatim>\<open>int\<close>, with flags \<^verbatim>\<open>F\<close>, or it raises \<^verbatim>\<open>AssertionError\<close>, \<^verbatim>\<open>ValueError\<close> or the
  exception of \<^verbatim>\<open>check_result\<close>. For rank 0 and a \<^verbatim>\<open>double\<close> type it raises
  \<^verbatim>\<open>AssertionError\<close>.
\<close>

theorem recognised_types_never_none:
  assumes "get_var_rank self name p = (Inr rank, p1)"
    and "get_var_type self name p1 = (Inr vartype, p2)"
    and "startswith (lower vartype) ''double'' \<or> startswith (lower vartype) ''int''"
  shows "fst (get_value_ptr self name p) \<noteq> Inr None \<and>
         (\<forall>v. fst (get_value_ptr self name p) = Inr (Some v) \<longrightarrow>
            nd_dtype (arraytype v)
              = (if startswith (lower vartype) ''double'' then float64 else int32) \<and>
            nd_flags (arraytype v) = ''F'') \<and>
         (\<forall>e. fst (get_value_ptr self name p) = Inl e \<longrightarrow>
            e = AssertionError \<or> e = ValueError \<or> (\<exists>msg. e = Exception msg)) \<and>
         (rank = 0 \<and> startswith (lower vartype) ''double'' \<longrightarrow>
            fst (get_value_ptr self name p) = Inl AssertionError)"
proof (cases "rank = 0")
  case True
  with assms show ?thesis
    by (auto simp: get_value_ptr_def get_value_ptr_scalar_def Let_def check_result_def
          startswith_double_not_int split: prod.splits sum.splits if_splits)
next
  case False
  have shp: "\<exists>msg. e = Exception msg \<or> e = ValueError"
    if "get_var_shape self name p2 = (Inl e, p3)" for e p3
    using that
    by (auto simp: get_var_shape_def get_var_rank_def check_result_def np_zeros_def
          split: prod.splits sum.splits if_splits)
  from False assms show ?thesis
    by (auto simp: get_value_ptr_def Let_def check_result_def startswith_double_not_int
          split: prod.splits sum.splits if_splits dest: shp)
qed

theorem recognised_types_never_none_witness:
  "fst (get_value_ptr (fake_adapter (fake_kernel (\<lambda>_. 0) 0 ''DOUBLE PRECISION'' [] 0) ''.'')
          ''DELT'' (fake_process ''/home'')) = Inl AssertionError \<and>
   fst (get_value_ptr (fake_adapter (fake_kernel (\<lambda>_. 0) 0 ''DOUBLE PRECISION'' [] 0) ''.'')
          ''DELT'' (fake_process ''/home'')) \<noteq> Inr None"
proof -
  let ?self = "fake_adapter (fake_kernel (\<lambda>_. 0) 0 ''DOUBLE PRECISION'' [] 0) ''.''"
  let ?p = "fake_process ''/home''"
  let ?c1 = "\<lparr>kc_name = ''get_var_rank'', kc_cwd = ''/home'', kc_status = 0\<rparr>"
  let ?c2 = "\<lparr>kc_name = ''get_var_type'', kc_cwd = ''/home'', kc_status = 0\<rparr>"
  let ?p1 = "?p\<lparr>observed := [?c1]\<rparr>"
  let ?p2 = "?p\<lparr>observed := [?c1, ?c2]\<rparr>"
  have 1: "get_var_rank ?self ''DELT'' ?p = (Inr 0, ?p1)"
    by (simp add: value_ptr_defs fake_defs)
  have 2: "get_var_type ?self ''DELT'' ?p1 = (Inr ''DOUBLE PRECISION'', ?p2)"
    by (simp add: value_ptr_defs fake_defs)
  have 3: "startswith (lower ''DOUBLE PRECISION'') ''double''
           \<or> startswith (lower ''DOUBLE PRECISION'') ''int''"
    by (simp add: startswith_def lower_def lower_char_def)
  have 4: "startswith (lower ''DOUBLE PRECISION'') ''double''"
    by (simp add: startswith_def lower_def lower_char_def)
  from recognised_types_never_none [OF 1 2 3] 4 show ?thesis by simp
qed

text \<open>
  Claim C3 as stated fails: for the type string \<^verbatim>\<open>CHARACTER\<close> the method returns
  \<^verbatim>\<open>None\<close>, at rank 1 and at rank 0, and for a scalar of type \<^verbatim>\<open>DOUBLE PRECISION\<close> it
  raises \<^verbatim>\<open>AssertionError\<close>.
\<close>

theorem unrecognised_type_returns_none_counterexample:
  "fst (get_value_ptr (fake_adapter (fake_kernel (\<lambda>_. 0) 1 ''CHARACTER'' [4] 0) ''.'')
          ''FLAG'' (fake_process ''/home'')) = Inr None \<and>
   fst (get_value_ptr (fake_adapter (fake_kernel (\<lambda>_. 0) 0 ''CHARACTER'' [] 0) ''.'')
          ''FLAG'' (fake_process ''/home'')) = Inr None \<and>
   fst (get_value_ptr (fake_adapter (fake_kernel (\<lambda>_. 0) 0 ''DOUBLE PRECISION'' [] 0) ''.'')
          ''DELT'' (fake_process ''/home'')) = Inl AssertionError"
  by (simp add: value_ptr_defs fake_defs)

section \<open>The working directory around a kernel call\<close>

text \<open>
  Claim C1, as the code has it. From an absolute current directory, every kernel-calling
  method that returns normally leaves the current directory as it found it, and so does
  every query, whatever its outcome. When a directory-changing method raises, the
  current directory is left at the working directory.
\<close>

theorem directory_restored_on_return:
  assumes "is_absolute (cwd p)" and "call_method self m p = (r, self', p')"
  shows "cwd p' = (if scoped_call m \<and> isl r then resolve (cwd p) (working_directory self)
                   else cwd p)"
  using call_method_effect [OF assms(2)] assms(1) by (auto simp: resolve_absolute)

theorem directory_restored_on_return_witness:
  "is_absolute (cwd (fake_process ''/home'')) \<and>
   cwd (snd (snd (call_method (fake_adapter (fake_kernel (\<lambda>_. 0) 0 [] [] 0) ''/model'') Update
                    (fake_process ''/home'')))) = ''/home'' \<and>
   cwd (snd (snd (call_method (fake_adapter (fake_kernel (\<lambda>_. 1) 0 [] [] 0) ''/model'') Update
                    (fake_process ''/home'')))) = ''/model'' \<and>
   cwd (snd (snd (call_method (fake_adapter (fake_kernel (\<lambda>_. 1) 0 [] [] 0) ''/model'')
                    Get_current_time (fake_process ''/home'')))) = ''/home''"
proof -
  have a: "is_absolute (cwd (fake_process ''/home''))"
    by (simp add: is_absolute_def fake_defs)
  have b: "call_method self m p = (fst (call_method self m p), fst (snd (call_method self m p)),
             snd (snd (call_method self m p)))" for self :: "unit adapter" and m p
    by simp
  have c: "\<not> isl (fst (call_method (fake_adapter (fake_kernel (\<lambda>_. 0) 0 [] [] 0) ''/model'') Update
                    (fake_process ''/home'')))"
    by (simp add: returns_def update_def Let_def ccall_def check_result_def BMI_SUCCESS_def
          os_chdir_def os_getcwd_def fake_defs)
  have d: "isl (fst (call_method (fake_adapter (fake_kernel (\<lambda>_. 1) 0 [] [] 0) ''/model'') Update
                    (fake_process ''/home'')))"
    by (simp add: returns_def update_def Let_def ccall_def check_result_def BMI_SUCCESS_def
          os_chdir_def os_getcwd_def fake_defs)
  have e: "resolve (cwd (fake_process ''/home''))
             (working_directory (fake_adapter (fake_kernel (\<lambda>_. 1) 0 [] [] 0) ''/model'')) = ''/model''"
    by (simp add: resolve_def is_absolute_def fake_defs)
  have f: "cwd (fake_process ''/home'') = ''/home''" by (simp add: fake_defs)
  from directory_restored_on_return [OF a b, of "fake_adapter (fake_kernel (\<lambda>_. 0) 0 [] [] 0) ''/model''" Update]
       directory_restored_on_return [OF a b, of "fake_adapter (fake_kernel (\<lambda>_. 1) 0 [] [] 0) ''/model''" Update]
       directory_restored_on_return [OF a b, of "fake_adapter (fake_kernel (\<lambda>_. 1) 0 [] [] 0) ''/model''" Get_current_time]
       a c d e f
  show ?thesis by simp
qed

text \<open>
  Claim C1 as stated fails: with the working directory \<^verbatim>\<open>/model\<close> and the caller in
  \<^verbatim>\<open>/home\<close>, an \<^verbatim>\<open>update\<close> whose kernel call returns status 1 raises and leaves the
  process in \<^verbatim>\<open>/model\<close>.
\<close>

theorem directory_not_restored_counterexample:
  "fst (update (fake_adapter (fake_kernel (\<lambda>_. 1) 0 [] [] 0) ''/model'') (fake_process ''/home''))
     = Inl (Exception ''MODFLOW 6 BMI, exception in: update ()'') \<and>
   cwd (fake_process ''/home'') = ''/home'' \<and>
   cwd (snd (snd (update (fake_adapter (fake_kernel (\<lambda>_. 1) 0 [] [] 0) ''/model'')
                    (fake_process ''/home'')))) = ''/model''"
  by (simp add: update_def Let_def ccall_def check_result_def BMI_SUCCESS_def
        os_chdir_def os_getcwd_def resolve_def is_absolute_def fake_defs)

text \<open>
  Claim C2, as the code has it. A method call only adds to the record of kernel calls.
  Every kernel call of a directory-changing method runs in the working directory; every
  kernel call of a query (the clock queries, the variable metadata and value-pointer
  queries, the grid queries and \<^verbatim>\<open>get_subcomponent_count\<close>) runs in the caller's current
  directory.
\<close>

theorem kernel_call_directory:
  assumes "call_method self m p = (r, self', p')"
  shows "observed p' = observed p @ new_calls p p' \<and>
         (\<forall>c\<in>set (new_calls p p').
            kc_cwd c = (if scoped_call m then resolve (cwd p) (working_directory self)
                        else cwd p))"
  using call_method_effect [OF assms] by (auto simp: new_calls_def kernel_dir_def)

theorem kernel_call_directory_witness:
  "new_calls (fake_process ''/home'')
     (snd (snd (call_method (fake_adapter (fake_kernel (\<lambda>_. 0) 0 [] [] 0) ''/model'') Update
                  (fake_process ''/home''))))
     = [\<lparr>kc_name = ''update'', kc_cwd = ''/model'', kc_status = 0\<rparr>] \<and>
   new_calls (fake_process ''/home'')
     (snd (snd (call_method (fake_adapter (fake_kernel (\<lambda>_. 0) 0 [] [] 0) ''/model'')
                  Get_current_time (fake_process ''/home''))))
     = [\<lparr>kc_name = ''get_current_time'', kc_cwd = ''/home'', kc_status = 0\<rparr>]"
proof -
  have b: "call_method self m p = (fst (call_method self m p), fst (snd (call_method self m p)),
             snd (snd (call_method self m p)))" for self :: "unit adapter" and m p
    by simp
  from kernel_call_directory [OF b, of "fake_adapter (fake_kernel (\<lambda>_. 0) 0 [] [] 0) ''/model''" Update "fake_process ''/home''"]
       kernel_call_directory [OF b, of "fake_adapter (fake_kernel (\<lambda>_. 0) 0 [] [] 0) ''/model''" Get_current_time "fake_process ''/home''"]
  show ?thesis
    by (simp add: new_calls_def returns_def answers_def update_def get_current_time_def Let_def
          ccall_def check_result_def BMI_SUCCESS_def os_chdir_def os_getcwd_def resolve_def
          is_absolute_def fake_defs)
qed

text \<open>
  Claim C2 as stated fails: with the working directory \<^verbatim>\<open>/model\<close> and the caller in
  \<^verbatim>\<open>/home\<close>, the kernel functions behind \<^verbatim>\<open>get_current_time\<close>, \<^verbatim>\<open>get_var_rank\<close>,
  \<^verbatim>\<open>get_grid_rank\<close> and \<^verbatim>\<open>get_subcomponent_count\<close> run in \<^verbatim>\<open>/home\<close>.
\<close>

theorem query_runs_in_callers_directory_counterexample:
  "resolve (cwd (fake_process ''/home''))
     (working_directory (fake_adapter (fake_kernel (\<lambda>_. 0) 0 [] [] 0) ''/model'')) = ''/model'' \<and>
   observed (snd (get_current_time (fake_adapter (fake_kernel (\<lambda>_. 0) 0 [] [] 0) ''/model'')
                    (fake_process ''/home'')))
     = [\<lparr>kc_name = ''get_current_time'', kc_cwd = ''/home'', kc_status = 0\<rparr>] \<and>
   observed (snd (get_var_rank (fake_adapter (fake_kernel (\<lambda>_. 0) 0 [] [] 0) ''/model'') ''HEAD''
                    (fake_process ''/home'')))
     = [\<lparr>kc_name = ''get_var_rank'', kc_cwd = ''/home'', kc_status = 0\<rparr>] \<and>
   observed (snd (get_grid_rank (fake_adapter (fake_kernel (\<lambda>_. 0) 0 [] [] 0) ''/model'') 1
                    (fake_process ''/home'')))
     = [\<lparr>kc_name = ''get_grid_rank'', kc_cwd = ''/home'', kc_status = 0\<rparr>] \<and>
   observed (snd (get_subcomponent_count (fake_adapter (fake_kernel (\<lambda>_. 0) 0 [] [] 0) ''/model'')
                    (fake_process ''/home'')))
     = [\<lparr>kc_name = ''get_subcomponent_count'', kc_cwd = ''/home'', kc_status = 0\<rparr>]"
  by (simp add: get_current_time_def get_var_rank_def get_grid_rank_def get_subcomponent_count_def
        Let_def ccall_def check_result_def BMI_SUCCESS_def resolve_def is_absolute_def fake_defs)

section \<open>Status codes and exceptions\<close>












end
